theory Spec2Isabelle
  imports Complex_Main "HOL-Library.Log_Nat" "HOL-Library.Sublist"
begin

section \<open>Python values and exceptions\<close>

text \<open>
  The values that \<^verbatim>\<open>json.loads\<close> produces and that the SDK passes around untyped.
  A float is a finite double (its exact rational value) or one of the three special
  values. A string is the list of its code points; the character type has the code
  points below 256 and no others, so a text with a character beyond them has no value
  here. A dictionary is an association list whose keys are strings; lookup takes the
  first binding of a key.
\<close>

datatype pyfloat = Fin rat | PosInf | NegInf | NaN

datatype pyval =
    PNone
  | PBool bool
  | PInt int
  | PFloat pyfloat
  | PStr string
  | PList "pyval list"
  | PDict "(string \<times> pyval) list"

text \<open>
  Exceptions as values. \<open>Exception msg\<close> is the bare \<^verbatim>\<open>Exception(msg)\<close> that
  \<^verbatim>\<open>split\<close> raises itself; \<open>CollaboratorError\<close> wraps whatever an injected hook
  or an external collaborator (object store, payload copy) raises.
\<close>

datatype error =
    Exception string
  | AssertionError
  | TypeError
  | KeyError
  | IndexError
  | AttributeError
  | ValueError
  | OverflowError
  | FileNotFoundError
  | JSONDecodeError
  | CollaboratorError string

text \<open>Sequencing: the first exception raised ends the computation.\<close>

definition and_then :: "'e + 'a \<Rightarrow> ('a \<Rightarrow> 'e + 'b) \<Rightarrow> 'e + 'b" where
  "and_then r f = (case r of Inl e \<Rightarrow> Inl e | Inr x \<Rightarrow> f x)"

text \<open>\<^verbatim>\<open>len(x)\<close>\<close>

fun py_len :: "pyval \<Rightarrow> error + nat" where
  "py_len (PList xs) = Inr (length xs)"
| "py_len (PStr s) = Inr (length s)"
| "py_len (PDict kvs) = Inr (length kvs)"
| "py_len _ = Inl TypeError"

text \<open>\<^verbatim>\<open>xs[i]\<close> on a Python sequence: a negative index counts from the end.\<close>

definition seq_index :: "'a list \<Rightarrow> int \<Rightarrow> error + 'a" where
  "seq_index xs i =
     (if 0 \<le> i \<and> i < int (length xs) then Inr (xs ! nat i)
      else if i < 0 \<and> - int (length xs) \<le> i then Inr (xs ! nat (int (length xs) + i))
      else Inl IndexError)"

text \<open>\<^verbatim>\<open>x[i]\<close> with an integer \<open>i\<close>. A dictionary has string keys only, so the key is absent.\<close>

fun getitem_int :: "pyval \<Rightarrow> int \<Rightarrow> error + pyval" where
  "getitem_int (PList xs) i = seq_index xs i"
| "getitem_int (PStr s) i = and_then (seq_index s i) (\<lambda>c. Inr (PStr [c]))"
| "getitem_int (PDict kvs) i = Inl KeyError"
| "getitem_int _ i = Inl TypeError"

text \<open>\<^verbatim>\<open>x[k]\<close> with a string \<open>k\<close>.\<close>

fun getitem_str :: "pyval \<Rightarrow> string \<Rightarrow> error + pyval" where
  "getitem_str (PDict kvs) k =
     (case map_of kvs k of None \<Rightarrow> Inl KeyError | Some v \<Rightarrow> Inr v)"
| "getitem_str _ k = Inl TypeError"

text \<open>
  \<^verbatim>\<open>int(s)\<close> on a string. A character is its code point, which is below 256 here.
  The white space that int() drops around the number: the parser skips the code points
  9 to 13 and 32, and a white-space code point above 126 is turned into a blank before
  parsing, which below 256 are 133 and 160. The separators 28 to 31 are white space for
  \<^verbatim>\<open>str.isspace\<close> but not for int(). A sign may follow, then decimal digits with
  single underscores between digits; below 256 the decimal digits are 0 to 9. A number
  of more than \<open>int_max_str_digits\<close> digits is refused: the interpreter's default limit.
\<close>

definition is_space :: "char \<Rightarrow> bool" where
  "is_space c =
     (let n = (of_char c :: nat) in (9 \<le> n \<and> n \<le> 13) \<or> n = 32 \<or> n = 133 \<or> n = 160)"

definition int_max_str_digits :: nat where
  "int_max_str_digits = 4300"

definition is_digit :: "char \<Rightarrow> bool" where
  "is_digit c = (let n = (of_char c :: nat) in 48 \<le> n \<and> n \<le> 57)"

definition strip :: "string \<Rightarrow> string" where
  "strip s = rev (dropWhile is_space (rev (dropWhile is_space s)))"

fun digits_value :: "nat \<Rightarrow> string \<Rightarrow> nat option" where
  "digits_value acc [] = Some acc"
| "digits_value acc (c # cs) =
     (if is_digit c then digits_value (10 * acc + (of_char c - 48)) cs
      else if c = CHR ''_'' \<and> (case cs of [] \<Rightarrow> False | d # _ \<Rightarrow> is_digit d)
           then digits_value acc cs
      else None)"

definition int_of_str :: "string \<Rightarrow> error + int" where
  "int_of_str s =
     (let t = strip s;
          neg = (case t of [] \<Rightarrow> False | c # _ \<Rightarrow> c = CHR ''-'');
          u = (case t of [] \<Rightarrow> t | c # r \<Rightarrow> if c = CHR ''-'' \<or> c = CHR ''+'' then r else t)
      in case u of
           [] \<Rightarrow> Inl ValueError
         | c # _ \<Rightarrow>
            if \<not> is_digit c then Inl ValueError
            else if int_max_str_digits < length (filter is_digit u) then Inl ValueError
            else (case digits_value 0 u of
                    None \<Rightarrow> Inl ValueError
                  | Some n \<Rightarrow> Inr (if neg then - int n else int n)))"

text \<open>
  \<^verbatim>\<open>int(x)\<close>: an int is itself, a bool is 0 or 1, a finite float is truncated
  towards zero, an infinity is an OverflowError and a NaN a ValueError, a string is
  parsed, and anything else is a TypeError.
\<close>

fun py_int :: "pyval \<Rightarrow> error + int" where
  "py_int (PInt n) = Inr n"
| "py_int (PBool b) = Inr (if b then 1 else 0)"
| "py_int (PFloat (Fin q)) = Inr (if 0 \<le> q then \<lfloor>q\<rfloor> else \<lceil>q\<rceil>)"
| "py_int (PFloat NaN) = Inl ValueError"
| "py_int (PFloat PosInf) = Inl OverflowError"
| "py_int (PFloat NegInf) = Inl OverflowError"
| "py_int (PStr s) = int_of_str s"
| "py_int PNone = Inl TypeError"
| "py_int (PList xs) = Inl TypeError"
| "py_int (PDict kvs) = Inl TypeError"

section \<open>TorchTOSDataset (ml\_platform\_sdk/io/tos\_files\_io.py)\<close>

text \<open>
  The object's attributes. \<open>'c\<close> is the credential, \<open>'d\<close> the decoded sample.
  A hook returns \<open>Inl msg\<close> when it raises. \<open>tos_client\<close> is \<open>False\<close> until
  \<^verbatim>\<open>__getitem__\<close> has created the client attribute.
\<close>

record ('c, 'd) torch_dataset =
  credential :: 'c
  decode :: "(string \<Rightarrow> string + 'd) option"
  transform :: "('d \<Rightarrow> string + 'd) option"
  target_transform :: "(pyval \<Rightarrow> string + pyval) option"
  buckets :: pyval
  keys :: pyval
  annotations :: pyval
  tos_client :: bool

text \<open>
  \<^verbatim>\<open>__init__\<close>. \<open>global_credential\<close> is what
  \<^verbatim>\<open>initializer.global_config.get_credential()\<close> returns. The second
  \<^verbatim>\<open>assert\<close> is an \<^verbatim>\<open>and\<close>: its right operand, and with it
  \<^verbatim>\<open>len(annotations)\<close>, is evaluated only when the left one holds.
\<close>

definition dict_get :: "(string \<rightharpoonup> pyval) \<Rightarrow> string \<Rightarrow> error + pyval" where
  "dict_get d k = (case d k of None \<Rightarrow> Inl KeyError | Some v \<Rightarrow> Inr v)"

definition TorchTOSDataset_init ::
  "'c \<Rightarrow> (string \<rightharpoonup> pyval) option \<Rightarrow> (string \<Rightarrow> string + 'd) option \<Rightarrow>
   ('d \<Rightarrow> string + 'd) option \<Rightarrow> (pyval \<Rightarrow> string + pyval) option \<Rightarrow> 'c option \<Rightarrow>
   error + ('c, 'd) torch_dataset" where
  "TorchTOSDataset_init global_credential manifest_info dec tr ttr cred =
     (let c = (case cred of Some c \<Rightarrow> c | None \<Rightarrow> global_credential) in
      and_then (case manifest_info of None \<Rightarrow> Inl TypeError | Some mi \<Rightarrow> Inr mi) (\<lambda>mi.
      and_then (dict_get mi ''buckets'') (\<lambda>bs.
      and_then (dict_get mi ''keys'') (\<lambda>ks.
      and_then (dict_get mi ''annotations'') (\<lambda>as.
        if bs = PNone \<or> ks = PNone \<or> as = PNone then Inl AssertionError
        else
          and_then (py_len bs) (\<lambda>lb.
          and_then (py_len ks) (\<lambda>lk.
            if lb \<noteq> lk then Inl AssertionError
            else
              and_then (py_len bs) (\<lambda>lb'.
              and_then (py_len as) (\<lambda>la.
                if lb' \<noteq> la then Inl AssertionError
                else Inr \<lparr> credential = c, decode = dec, transform = tr,
                           target_transform = ttr, buckets = bs, keys = ks,
                           annotations = as, tos_client = False \<rparr>)))))))))"

text \<open>\<^verbatim>\<open>__len__\<close>\<close>

definition TorchTOSDataset_len :: "('c, 'd) torch_dataset \<Rightarrow> error + nat" where
  "TorchTOSDataset_len ds = py_len (buckets ds)"

text \<open>
  The collaborators of \<^verbatim>\<open>__getitem__\<close>: \<open>new_client\<close> is \<^verbatim>\<open>tos.TOSClient(credential)\<close>;
  \<open>get_object\<close> stands for \<^verbatim>\<open>get_object(bucket, key)\<close> on the client made from that
  credential, \<^verbatim>\<open>read()\<close> and \<^verbatim>\<open>close()\<close>; \<open>image_decode\<close> is \<^verbatim>\<open>_decode\<close>, the
  image codec. Each returns \<open>Inl msg\<close> when it raises.
\<close>

record ('c, 'd) tos_env =
  new_client :: "'c \<Rightarrow> string + unit"
  get_object :: "'c \<Rightarrow> pyval \<Rightarrow> pyval \<Rightarrow> string + string"
  image_decode :: "string \<Rightarrow> string + 'd"

text \<open>\<^verbatim>\<open>target['Result'][0]["Data"][0]["Label"]\<close>, the argument of int() in line 44.\<close>

definition label_field :: "pyval \<Rightarrow> error + pyval" where
  "label_field target =
     and_then (getitem_str target ''Result'') (\<lambda>r.
     and_then (getitem_int r 0) (\<lambda>r0.
     and_then (getitem_str r0 ''Data'') (\<lambda>d.
     and_then (getitem_int d 0) (\<lambda>d0.
       getitem_str d0 ''Label''))))"

text \<open>\<^verbatim>\<open>_target_transform\<close>: \<^verbatim>\<open>int(target['Result'][0]["Data"][0]["Label"])\<close>\<close>

definition default_target_transform :: "pyval \<Rightarrow> error + pyval" where
  "default_target_transform target =
     and_then (label_field target) (\<lambda>l.
     and_then (py_int l) (\<lambda>n. Inr (PInt n)))"

text \<open>The exception of a hook or collaborator, as it reaches the caller.\<close>

definition raised :: "string + 'a \<Rightarrow> error + 'a" where
  "raised r = (case r of Inl msg \<Rightarrow> Inl (CollaboratorError msg) | Inr x \<Rightarrow> Inr x)"

text \<open>
  \<^verbatim>\<open>__getitem__\<close>. The result is paired with the object as the call leaves it. The
  client is made first, when the object has none yet; when that raises, the object
  still has none. Only then are the three sequences indexed.
\<close>

definition TorchTOSDataset_getitem ::
  "('c, 'd) tos_env \<Rightarrow> ('c, 'd) torch_dataset \<Rightarrow> int \<Rightarrow>
   (error + ('d \<times> pyval)) \<times> ('c, 'd) torch_dataset" where
  "TorchTOSDataset_getitem env ds index =
     (case (if tos_client ds then Inr () else raised (new_client env (credential ds))) of
        Inl e \<Rightarrow> (Inl e, ds)
      | Inr _ \<Rightarrow>
         (and_then (getitem_int (buckets ds) index) (\<lambda>bucket.
          and_then (getitem_int (keys ds) index) (\<lambda>key.
          and_then (getitem_int (annotations ds) index) (\<lambda>annotation.
          and_then (raised (get_object env (credential ds) bucket key)) (\<lambda>raw.
          and_then (raised (case decode ds of Some f \<Rightarrow> f raw | None \<Rightarrow> image_decode env raw))
            (\<lambda>d0.
          and_then (raised (case transform ds of Some f \<Rightarrow> f d0 | None \<Rightarrow> Inr d0)) (\<lambda>d.
          and_then (case target_transform ds of
                      Some h \<Rightarrow> raised (h annotation)
                    | None \<Rightarrow> default_target_transform annotation) (\<lambda>label.
            Inr (d, label)))))))),
          ds\<lparr>tos_client := True\<rparr>))"

text \<open>The dictionary \<^verbatim>\<open>{"buckets": bs, "keys": ks, "annotations": as}\<close>.\<close>

definition manifest_info_of :: "pyval \<Rightarrow> pyval \<Rightarrow> pyval \<Rightarrow> (string \<rightharpoonup> pyval)" where
  "manifest_info_of bs ks as =
     [''buckets'' \<mapsto> bs, ''keys'' \<mapsto> ks, ''annotations'' \<mapsto> as]"

text \<open>A one-record dataset and collaborators that always answer, for concrete evaluation.\<close>

definition label_annotation :: "pyval \<Rightarrow> pyval" where
  "label_annotation l =
     PDict [(''Result'', PList [PDict [(''Data'', PList [PDict [(''Label'', l)]])]])]"

definition example_annotation :: pyval where
  "example_annotation = label_annotation (PStr ''3'')"

definition example_env :: "(unit, string) tos_env" where
  "example_env =
     \<lparr> new_client = (\<lambda>c. Inr ()), get_object = (\<lambda>c b k. Inr ''raw''),
       image_decode = (\<lambda>s. Inr s) \<rparr>"

definition example_dataset ::
  "pyval \<Rightarrow> (pyval \<Rightarrow> string + pyval) option \<Rightarrow> (unit, string) torch_dataset" where
  "example_dataset ann h =
     \<lparr> credential = (), decode = None, transform = None, target_transform = h,
       buckets = PList [PStr ''b''], keys = PList [PStr ''k''], annotations = PList [ann],
       tos_client = False \<rparr>"

section \<open>Collaborators of the dataset classes\<close>

text \<open>
  The \<^verbatim>\<open>json\<close> module: \<open>loads\<close> is \<open>None\<close> where \<^verbatim>\<open>json.loads\<close> raises
  JSONDecodeError; \<open>dumps\<close> is the text that \<^verbatim>\<open>json.dump\<close> writes.
\<close>

record json =
  loads :: "string \<Rightarrow> pyval option"
  dumps :: "pyval \<Rightarrow> string"

definition json_loads :: "json \<Rightarrow> string \<Rightarrow> error + pyval" where
  "json_loads j line = (case loads j line of None \<Rightarrow> Inl JSONDecodeError | Some v \<Rightarrow> Inr v)"

text \<open>
  The file system. A text file is the list of its lines, as \<^verbatim>\<open>for line in f\<close>
  yields them and as one \<^verbatim>\<open>json.dump\<close> followed by \<^verbatim>\<open>write("\n")\<close> adds one.
  \<open>payloads\<close> is the state of the payload files, which only the copy collaborator
  touches. There are no permissions: creating a directory and opening a file for
  writing succeed. A path is the name of one file: two different path strings are two
  files (no links, no normalisation of \<^verbatim>\<open>.\<close> and \<^verbatim>\<open>..\<close>).
\<close>

record 'p filesystem =
  dirs :: "string set"
  files :: "string \<rightharpoonup> string list"
  payloads :: 'p

section \<open>ImageDataset.parse\_image\_manifest (volcengine\_ml\_platform/datasets/image\_dataset.py)\<close>

text \<open>
  \<^verbatim>\<open>s.split(sep)\<close> for a non-empty separator: cut at every occurrence of \<open>sep\<close>,
  found from the left and not overlapping. \<open>cur\<close> holds the current piece, reversed.
\<close>

fun split_from :: "string \<Rightarrow> string \<Rightarrow> string \<Rightarrow> string list" where
  "split_from sep cur [] = [rev cur]"
| "split_from sep cur (c # cs) =
     (if sep \<noteq> [] \<and> take (length sep) (c # cs) = sep
      then rev cur # split_from sep [] (drop (length sep - 1) cs)
      else split_from sep (c # cur) cs)"

definition py_split :: "string \<Rightarrow> string \<Rightarrow> error + string list" where
  "py_split s sep = (if sep = [] then Inl ValueError else Inr (split_from sep [] s))"

text \<open>
  Lines 174 and 175:
  \<^verbatim>\<open>bucket = url.split("//")[1].split("/")[0]\<close> and
  \<^verbatim>\<open>key = url.split(f"{bucket}/")[1]\<close>.
\<close>

definition parse_url :: "string \<Rightarrow> error + (string \<times> string)" where
  "parse_url url =
     and_then (py_split url ''//'') (\<lambda>parts.
     and_then (seq_index parts 1) (\<lambda>rest.
     and_then (py_split rest ''/'') (\<lambda>segments.
     and_then (seq_index segments 0) (\<lambda>bucket.
     and_then (py_split url (bucket @ ''/'')) (\<lambda>pieces.
     and_then (seq_index pieces 1) (\<lambda>key.
       Inr (bucket, key)))))))"

text \<open>\<^verbatim>\<open>url.split\<close>: only a string has the method.\<close>

fun str_of :: "pyval \<Rightarrow> error + string" where
  "str_of (PStr s) = Inr s"
| "str_of _ = Inl AttributeError"

text \<open>The body of the loop, lines 172 to 180: the bucket, key and annotation of one line.\<close>

definition parse_image_manifest_line :: "json \<Rightarrow> string \<Rightarrow> error + (string \<times> string \<times> pyval)" where
  "parse_image_manifest_line j line =
     and_then (json_loads j line) (\<lambda>manifest_line.
     and_then (getitem_str manifest_line ''Data'') (\<lambda>data.
     and_then (getitem_str data ''ImageURL'') (\<lambda>u.
     and_then (str_of u) (\<lambda>url.
     and_then (parse_url url) (\<lambda>(bucket, key).
     and_then (getitem_str manifest_line ''Annotation'') (\<lambda>annotation.
       Inr (bucket, key, annotation)))))))"

text \<open>The loop over the lines; the three lists grow by \<^verbatim>\<open>append\<close>.\<close>

fun parse_image_manifest_loop ::
  "json \<Rightarrow> string list \<Rightarrow> string list \<times> string list \<times> pyval list \<Rightarrow>
   error + (string list \<times> string list \<times> pyval list)" where
  "parse_image_manifest_loop j [] info = Inr info"
| "parse_image_manifest_loop j (line # rest) (bs, ks, as) =
     and_then (parse_image_manifest_line j line) (\<lambda>(bucket, key, annotation).
       parse_image_manifest_loop j rest (bs @ [bucket], ks @ [key], as @ [annotation]))"

definition parse_image_manifest ::
  "json \<Rightarrow> ('p, 'z) filesystem_scheme \<Rightarrow> string \<Rightarrow> error + (string \<rightharpoonup> pyval)" where
  "parse_image_manifest j fs manifest_file_path =
     and_then (case files fs manifest_file_path of
                 None \<Rightarrow> Inl FileNotFoundError | Some ls \<Rightarrow> Inr ls) (\<lambda>ls.
     and_then (parse_image_manifest_loop j ls ([], [], [])) (\<lambda>(bs, ks, as).
       Inr (manifest_info_of (PList (map PStr bs)) (PList (map PStr ks)) (PList as))))"

text \<open>
  A stand-in for the \<^verbatim>\<open>json\<close> module on manifests whose lines consist of the URL
  alone, and a file system holding one such manifest of three lines.
\<close>

definition example_record :: "string \<Rightarrow> pyval" where
  "example_record url =
     PDict [(''Data'', PDict [(''ImageURL'', PStr url)]), (''Annotation'', example_annotation)]"

definition example_json :: json where
  "example_json =
     \<lparr> loads = (\<lambda>line. if line = [] then None else Some (example_record line)),
       dumps = (\<lambda>v. case getitem_str v ''Data'' of
                        Inr d \<Rightarrow> (case getitem_str d ''ImageURL'' of Inr (PStr url) \<Rightarrow> url | _ \<Rightarrow> [])
                      | _ \<Rightarrow> []) \<rparr>"

definition example_lines :: "string list" where
  "example_lines = [''tos://b/x.jpg'', ''tos://b/y.jpg'', ''tos://b/z.jpg'']"

definition example_fs :: "nat filesystem" where
  "example_fs =
     \<lparr> dirs = {''data''},
       files = [''data/local_metadata.manifest'' \<mapsto> example_lines],
       payloads = 0 \<rparr>"

section \<open>Double-precision arithmetic\<close>

text \<open>
  The largest \<open>l\<close> with \<open>2\<^sup>l \<le> q\<close>, for a positive rational \<open>q\<close>: from the bit
  lengths of numerator and denominator, which fix it up to one.
\<close>

definition ilog2 :: "rat \<Rightarrow> int" where
  "ilog2 q =
     (let l = bitlen (fst (quotient_of q)) - bitlen (snd (quotient_of q))
      in if power_int 2 l \<le> q then l else l - 1)"

text \<open>The nearest integer, a tie going to the even one.\<close>

definition round_half_even :: "rat \<Rightarrow> int" where
  "round_half_even q =
     (let f = \<lfloor>q\<rfloor>; r = q - of_int f
      in if r < 1 / 2 then f
         else if 1 / 2 < r then f + 1
         else if even f then f else f + 1)"

text \<open>
  The IEEE 754 binary64 rounding of an exact value, before the overflow check: 53
  significant bits, the exponent of the last bit not below \<open>-1074\<close> (subnormals), ties
  to even.
\<close>

definition round_double :: "rat \<Rightarrow> rat" where
  "round_double x =
     (if x = 0 then 0
      else let e = max (ilog2 \<bar>x\<bar> - 52) (- 1074)
           in of_int (round_half_even (x / power_int 2 e)) * power_int 2 e)"

definition max_double :: rat where
  "max_double = (2 ^ 53 - 1) * 2 ^ 971"

text \<open>The float that an operation with exact result \<open>x\<close> returns.\<close>

definition to_float :: "rat \<Rightarrow> pyfloat" where
  "to_float x =
     (let r = round_double x
      in if max_double < r then PosInf else if r < - max_double then NegInf else Fin r)"

text \<open>\<^verbatim>\<open>1 - ratio\<close>\<close>

fun one_minus :: "pyfloat \<Rightarrow> pyfloat" where
  "one_minus (Fin r) = to_float (1 - r)"
| "one_minus PosInf = NegInf"
| "one_minus NegInf = PosInf"
| "one_minus NaN = NaN"

text \<open>
  \<^verbatim>\<open>n * x\<close> for an int \<open>n\<close> and a float \<open>x\<close>: the int is converted to a float first,
  which is an OverflowError when it is too large, and the product is a float.
\<close>

definition int_to_float :: "int \<Rightarrow> error + rat" where
  "int_to_float n = (case to_float (of_int n) of Fin r \<Rightarrow> Inr r | _ \<Rightarrow> Inl OverflowError)"

fun float_mul :: "rat \<Rightarrow> pyfloat \<Rightarrow> pyfloat" where
  "float_mul a (Fin b) = to_float (a * b)"
| "float_mul a PosInf = (if a = 0 then NaN else if 0 < a then PosInf else NegInf)"
| "float_mul a NegInf = (if a = 0 then NaN else if 0 < a then NegInf else PosInf)"
| "float_mul a NaN = NaN"

definition int_times_float :: "int \<Rightarrow> pyfloat \<Rightarrow> error + pyfloat" where
  "int_times_float n x = and_then (int_to_float n) (\<lambda>a. Inr (float_mul a x))"

text \<open>\<^verbatim>\<open>math.floor(x)\<close>\<close>

fun math_floor :: "pyfloat \<Rightarrow> error + int" where
  "math_floor (Fin r) = Inr \<lfloor>r\<rfloor>"
| "math_floor NaN = Inl ValueError"
| "math_floor PosInf = Inl OverflowError"
| "math_floor NegInf = Inl OverflowError"

text \<open>\<^verbatim>\<open>math.floor(line_count * (1 - ratio))\<close>, lines 81 and 91.\<close>

definition test_count :: "int \<Rightarrow> pyfloat \<Rightarrow> error + int" where
  "test_count line_count ratio =
     and_then (int_times_float line_count (one_minus ratio)) math_floor"

section \<open>numpy.random\<close>

text \<open>
  The global generator of \<^verbatim>\<open>numpy.random\<close>: \<open>seed_state\<close> is the state that
  \<^verbatim>\<open>seed(n)\<close> installs, \<open>sample st n k\<close> is what \<^verbatim>\<open>choice(n, k, replace=False)\<close>
  returns from state \<open>st\<close> for \<open>k \<le> n\<close>, with the state it leaves behind.
\<close>

record 's numpy =
  seed_state :: "int \<Rightarrow> 's"
  sample :: "'s \<Rightarrow> nat \<Rightarrow> nat \<Rightarrow> nat list \<times> 's"


section \<open>The state that split reads and changes\<close>

text \<open>The file system together with the state of the global random generator.\<close>

record ('s, 'p) world = "'p filesystem" +
  rng :: 's

text \<open>
  A statement is a function from the state to an exception or a value, and the state
  it leaves behind; \<open>and_then_w\<close> runs the next statement unless the first one raised.
\<close>

definition and_then_w ::
  "('w \<Rightarrow> (error + 'a) \<times> 'w) \<Rightarrow> ('a \<Rightarrow> 'w \<Rightarrow> (error + 'b) \<times> 'w) \<Rightarrow> 'w \<Rightarrow> (error + 'b) \<times> 'w" where
  "and_then_w m f w = (case m w of (Inl e, w') \<Rightarrow> (Inl e, w') | (Inr x, w') \<Rightarrow> f x w')"

definition pure_w :: "error + 'a \<Rightarrow> 'w \<Rightarrow> (error + 'a) \<times> 'w" where
  "pure_w r w = (r, w)"

text \<open>\<^verbatim>\<open>np.random.seed(random_state)\<close>: the seed must fit in 32 bits.\<close>

definition np_random_seed ::
  "'s numpy \<Rightarrow> int \<Rightarrow> ('s, 'p) world \<Rightarrow> (error + unit) \<times> ('s, 'p) world" where
  "np_random_seed np random_state w =
     (if 0 \<le> random_state \<and> random_state < 2 ^ 32
      then (Inr (), w\<lparr>rng := seed_state np random_state\<rparr>)
      else (Inl ValueError, w))"

text \<open>
  \<^verbatim>\<open>np.random.choice(a, size, replace=False)\<close> for integers \<open>a\<close> and \<open>size\<close>: a
  negative size \<open>n\<close> and a size above the population are ValueErrors.
\<close>

definition np_random_choice ::
  "'s numpy \<Rightarrow> int \<Rightarrow> int \<Rightarrow> ('s, 'p) world \<Rightarrow> (error + nat list) \<times> ('s, 'p) world" where
  "np_random_choice np a n w =
     (if n < 0 \<or> a < n then (Inl ValueError, w)
      else (Inr (fst (sample np (rng w) (nat a) (nat n))),
            w\<lparr>rng := snd (sample np (rng w) (nat a) (nat n))\<rparr>))"

text \<open>\<^verbatim>\<open>os.makedirs(dir, exist_ok=True)\<close>\<close>

definition os_makedirs :: "string \<Rightarrow> ('s, 'p) world \<Rightarrow> (error + unit) \<times> ('s, 'p) world" where
  "os_makedirs dir w = (Inr (), w\<lparr>dirs := insert dir (dirs w)\<rparr>)"

text \<open>\<^verbatim>\<open>open(path, mode="w")\<close>: the file is created or emptied.\<close>

definition open_write :: "string \<Rightarrow> ('s, 'p) world \<Rightarrow> (error + unit) \<times> ('s, 'p) world" where
  "open_write path w = (Inr (), w\<lparr>files := (files w)(path \<mapsto> [])\<rparr>)"

text \<open>\<^verbatim>\<open>open(path)\<close> and the lines that iterating over the file yields.\<close>

definition open_read ::
  "string \<Rightarrow> ('s, 'p) world \<Rightarrow> (error + string list) \<times> ('s, 'p) world" where
  "open_read path w =
     (case files w path of None \<Rightarrow> (Inl FileNotFoundError, w) | Some ls \<Rightarrow> (Inr ls, w))"

text \<open>The lines of a file, none if it does not exist.\<close>

definition content :: "('s, 'p) world \<Rightarrow> string \<Rightarrow> string list" where
  "content w path = (case files w path of None \<Rightarrow> [] | Some ls \<Rightarrow> ls)"

text \<open>
  \<^verbatim>\<open>json.dump(manifest_line, f)\<close> and \<^verbatim>\<open>f.write("\n")\<close>: one more line at the end.
  A handle writes after what it has written before, which is the end of the file as
  long as no other handle writes to the same path.
\<close>

definition write_line ::
  "string \<Rightarrow> string \<Rightarrow> ('s, 'p) world \<Rightarrow> (error + unit) \<times> ('s, 'p) world" where
  "write_line path line w = (Inr (), w\<lparr>files := (files w)(path \<mapsto> content w path @ [line])\<rparr>)"

section \<open>ImageDataset.split and TextDataset.split (volcengine\_ml\_platform/datasets)\<close>

text \<open>
  The two methods are the same text but for the class of the datasets they construct.
  The attributes of a dataset that split uses:
\<close>

record dataset =
  local_path :: string
  data_count :: int
  created :: bool

definition DATASET_LOCAL_METADATA_FILENAME :: string where
  "DATASET_LOCAL_METADATA_FILENAME = ''local_metadata.manifest''"

text \<open>\<^verbatim>\<open>os.path.join(a, b)\<close> on POSIX.\<close>

definition os_path_join :: "string \<Rightarrow> string \<Rightarrow> string" where
  "os_path_join a b =
     (if b \<noteq> [] \<and> hd b = CHR ''/'' then b
      else if a = [] \<or> last a = CHR ''/'' then a @ b
      else a @ ''/'' @ b)"

text \<open>
  Modelled from the spec: \<^verbatim>\<open>_Dataset._manifest_path\<close> (datasets/dataset.py is not among
  the sources). The materialized manifest is the file of the fixed name
  \<^verbatim>\<open>local_metadata.manifest\<close> under the dataset's local path.
\<close>

definition manifest_path :: "dataset \<Rightarrow> string" where
  "manifest_path ds = os_path_join (local_path ds) DATASET_LOCAL_METADATA_FILENAME"

text \<open>
  Modelled from the spec: the constructor \<^verbatim>\<open>_Dataset.__init__(local_path=dir)\<close>
  (datasets/dataset.py is not among the sources). A new dataset is not created; split
  assigns \<open>data_count\<close> and \<open>created\<close> before it returns the object.
\<close>

definition new_dataset :: "string \<Rightarrow> dataset" where
  "new_dataset dir = \<lparr> local_path = dir, data_count = 0, created = False \<rparr>"

text \<open>
  The collaborators of split: numpy, json and \<^verbatim>\<open>dataset_copy_file(manifest_line,
  source_dir, destination_dir)\<close> (datasets/dataset.py is not among the sources). The
  call receives the dictionary itself, so it may change the record as well as the
  payload files: it returns the record and the payload files as it leaves them, or
  raises (\<open>Inl msg\<close>).
\<close>

record ('s, 'p) split_env =
  np :: "'s numpy"
  js :: json
  dataset_copy_file :: "pyval \<Rightarrow> string \<Rightarrow> string \<Rightarrow> 'p \<Rightarrow> string + pyval \<times> 'p"

definition copy_file ::
  "('s, 'p) split_env \<Rightarrow> pyval \<Rightarrow> string \<Rightarrow> string \<Rightarrow> ('s, 'p) world \<Rightarrow>
   (error + pyval) \<times> ('s, 'p) world" where
  "copy_file env manifest_line source_dir destination_dir w =
     (case dataset_copy_file env manifest_line source_dir destination_dir (payloads w) of
        Inl msg \<Rightarrow> (Inl (CollaboratorError msg), w)
      | Inr (manifest_line', p) \<Rightarrow> (Inr manifest_line', w\<lparr>payloads := p\<rparr>))"


text \<open>Lines 77 to 84: seed the generator, then draw the set of test positions.\<close>

definition draw_test_index_set ::
  "('s, 'p) split_env \<Rightarrow> int \<Rightarrow> pyfloat \<Rightarrow> int \<Rightarrow> ('s, 'p) world \<Rightarrow>
   (error + nat set) \<times> ('s, 'p) world" where
  "draw_test_index_set env line_count ratio random_state =
     and_then_w (np_random_seed (np env) random_state) (\<lambda>_.
     and_then_w (pure_w (test_count line_count ratio)) (\<lambda>test_size.
     and_then_w (np_random_choice (np env) line_count test_size) (\<lambda>idx.
     pure_w (Inr (set idx)))))"

text \<open>The body of the loop, lines 116 to 132, for the line at position \<open>index\<close>.\<close>

definition split_line ::
  "('s, 'p) split_env \<Rightarrow> dataset \<Rightarrow> string \<Rightarrow> string \<Rightarrow> nat set \<Rightarrow> nat \<Rightarrow> string \<Rightarrow>
   ('s, 'p) world \<Rightarrow> (error + unit) \<times> ('s, 'p) world" where
  "split_line env self training_dir testing_dir test_index_set index line =
     and_then_w (pure_w (json_loads (js env) line)) (\<lambda>manifest_line.
       if index \<in> test_index_set then
         and_then_w (copy_file env manifest_line (local_path self) testing_dir)
           (\<lambda>manifest_line.
             write_line (os_path_join testing_dir DATASET_LOCAL_METADATA_FILENAME)
               (dumps (js env) manifest_line))
       else
         and_then_w (copy_file env manifest_line (local_path self) training_dir)
           (\<lambda>manifest_line.
             write_line (os_path_join training_dir DATASET_LOCAL_METADATA_FILENAME)
               (dumps (js env) manifest_line)))"

text \<open>The loop over the lines of the original manifest, lines 113 to 133.\<close>

fun split_loop ::
  "('s, 'p) split_env \<Rightarrow> dataset \<Rightarrow> string \<Rightarrow> string \<Rightarrow> nat set \<Rightarrow> nat \<Rightarrow> string list \<Rightarrow>
   ('s, 'p) world \<Rightarrow> (error + unit) \<times> ('s, 'p) world" where
  "split_loop env self training_dir testing_dir test_index_set index [] w = (Inr (), w)"
| "split_loop env self training_dir testing_dir test_index_set index (line # rest) w =
     (case split_line env self training_dir testing_dir test_index_set index line w of
        (Inl e, w') \<Rightarrow> (Inl e, w')
      | (Inr u, w') \<Rightarrow>
          split_loop env self training_dir testing_dir test_index_set (index + 1) rest w')"

text \<open>
  \<^verbatim>\<open>split(self, training_dir, testing_dir, ratio, random_state)\<close>: the exception or
  the pair of the training and the test dataset, and the state left behind.
\<close>

definition split ::
  "('s, 'p) split_env \<Rightarrow> dataset \<Rightarrow> string \<Rightarrow> string \<Rightarrow> pyfloat \<Rightarrow> int \<Rightarrow> ('s, 'p) world \<Rightarrow>
   (error + dataset \<times> dataset) \<times> ('s, 'p) world" where
  "split env self training_dir testing_dir ratio random_state =
     (if \<not> created self then pure_w (Inl (Exception ''datasets has not been created''))
      else
        and_then_w (draw_test_index_set env (data_count self) ratio random_state)
          (\<lambda>test_index_set.
        and_then_w (os_makedirs testing_dir) (\<lambda>_.
        and_then_w (os_makedirs training_dir) (\<lambda>_.
        and_then_w (pure_w (test_count (data_count self) ratio)) (\<lambda>test_size.
        and_then_w
          (open_write (os_path_join testing_dir DATASET_LOCAL_METADATA_FILENAME)) (\<lambda>_.
        and_then_w
          (open_write (os_path_join training_dir DATASET_LOCAL_METADATA_FILENAME)) (\<lambda>_.
        and_then_w (open_read (manifest_path self)) (\<lambda>lines.
        and_then_w
          (split_loop env self training_dir testing_dir test_index_set 0 lines) (\<lambda>_.
        pure_w (Inr ((new_dataset training_dir)
                       \<lparr>data_count := data_count self - test_size, created := True\<rparr>,
                     (new_dataset testing_dir)
                       \<lparr>data_count := test_size, created := True\<rparr>)))))))))))"


text \<open>
  A small run: a generator whose state is a counter and whose sample is the start of
  the rotated range, a copy that counts the payloads it has copied, and the dataset
  over the manifest of three lines above.
\<close>

definition example_numpy :: "nat numpy" where
  "example_numpy =
     \<lparr> seed_state = (\<lambda>random_state. nat random_state),
       sample = (\<lambda>st n k. (take k (rotate st [0..<n]), st + k)) \<rparr>"

definition example_split_env :: "(nat, nat) split_env" where
  "example_split_env =
     \<lparr> np = example_numpy, js = example_json,
       dataset_copy_file = (\<lambda>manifest_line source_dir destination_dir p.
          Inr (manifest_line, p + 1)) \<rparr>"

definition example_world :: "(nat, nat) world" where
  "example_world =
     \<lparr> dirs = {''data''},
       files = [''data/local_metadata.manifest'' \<mapsto> example_lines],
       payloads = 0, rng = 7 \<rparr>"

definition example_source :: dataset where
  "example_source = \<lparr> local_path = ''data'', data_count = 3, created = True \<rparr>"

section \<open>Theorems\<close>

lemma and_then_simps [simp]:
  "and_then (Inl e) f = Inl e"
  "and_then (Inr x) f = f x"
  by (simp_all add: and_then_def)

lemma manifest_info_of_simps:
  "dict_get (manifest_info_of bs ks as) ''buckets'' = Inr bs"
  "dict_get (manifest_info_of bs ks as) ''keys'' = Inr ks"
  "dict_get (manifest_info_of bs ks as) ''annotations'' = Inr as"
  by (simp_all add: manifest_info_of_def dict_get_def)

text \<open>
  Claim C4. Constructing the dataset from three sequences fails with the assertion's
  error (the spec's InvalidManifestError) whenever two of the lengths differ, and
  otherwise succeeds with an object that records exactly the three sequences.
\<close>

theorem C4_init_length_check:
  "TorchTOSDataset_init g (Some (manifest_info_of (PList bs) (PList ks) (PList as)))
       dec tr ttr cred =
     (if length bs = length ks \<and> length bs = length as
      then Inr \<lparr> credential = (case cred of Some c \<Rightarrow> c | None \<Rightarrow> g), decode = dec,
                 transform = tr, target_transform = ttr, buckets = PList bs,
                 keys = PList ks, annotations = PList as, tos_client = False \<rparr>
      else Inl AssertionError)"
  by (simp add: TorchTOSDataset_init_def manifest_info_of_simps)

text \<open>
  Claim C10. Without a manifest\_info argument (the default \<^verbatim>\<open>None\<close>) the
  constructor always raises: subscripting \<^verbatim>\<open>None\<close> is a TypeError, whatever
  the other arguments are. No dataset, empty or not, is produced.
\<close>

theorem C10_init_without_manifest_info:
  "TorchTOSDataset_init g None dec tr ttr cred = Inl TypeError"
  by (simp add: TorchTOSDataset_init_def)

lemma digits_value_all_digits:
  "\<forall>c \<in> set s. is_digit c \<Longrightarrow>
     digits_value acc s = Some (foldl (\<lambda>a c. 10 * a + (of_char c - 48)) acc s)"
  by (induction s arbitrary: acc) simp_all

lemma strip_digits:
  assumes "\<forall>c \<in> set s. is_digit c"
  shows "strip s = s"
proof -
  have d: "\<not> is_space c" if "is_digit c" for c
    using that by (auto simp: is_digit_def is_space_def Let_def)
  have l: "dropWhile is_space t = t" if "\<forall>c \<in> set t. is_digit c" for t
    using that d by (cases t) auto
  show ?thesis
    using assms by (simp add: strip_def l)
qed

lemma int_of_str_digits:
  assumes "s \<noteq> []" and "\<forall>c \<in> set s. is_digit c" and "length s \<le> int_max_str_digits"
  shows "int_of_str s = Inr (int (foldl (\<lambda>a c. 10 * a + (of_char c - 48)) 0 s))"
proof -
  from assms(1) obtain c cs where s: "s = c # cs"
    by (cases s) auto
  have c: "is_digit c" "c \<noteq> CHR ''-''" "c \<noteq> CHR ''+''"
    using assms(2) unfolding s by (auto simp: is_digit_def Let_def)
  have f: "filter is_digit s = s"
    using assms(2) by simp
  show ?thesis
    using c assms(3) digits_value_all_digits [OF assms(2), of 0] f
    unfolding int_of_str_def strip_digits [OF assms(2)]
    by (simp add: s Let_def)
qed

text \<open>
  Claim C8. Let the client exist or be made, record \<open>i\<close> exist, its payload be fetched
  and decoded and the optional transform return \<open>d\<close>. Without a target-transform hook,
  \<^verbatim>\<open>get(i)\<close> is the pair of \<open>d\<close> and the integer coercion of
  \<^verbatim>\<open>annotation['Result'][0]['Data'][0]['Label']\<close>, and it raises what that path or the
  coercion raises. With a hook \<open>h\<close>, the label is \<open>h annotation\<close> and nothing else: the
  default extractor plays no part, so an annotation it would reject is accepted. The
  coercion of an integer label is that integer, and the coercion of a label that is a
  string of at most 4300 decimal digits is the number the digits denote.
\<close>

theorem C8_label_extraction:
  assumes "tos_client ds \<or> new_client env (credential ds) = Inr ()"
    and "getitem_int (buckets ds) i = Inr b"
    and "getitem_int (keys ds) i = Inr k"
    and "getitem_int (annotations ds) i = Inr ann"
    and "get_object env (credential ds) b k = Inr raw"
    and "(case decode ds of Some f \<Rightarrow> f raw | None \<Rightarrow> image_decode env raw) = Inr d0"
    and "(case transform ds of Some f \<Rightarrow> f d0 | None \<Rightarrow> Inr d0) = Inr d"
  shows "(target_transform ds = None \<longrightarrow>
            fst (TorchTOSDataset_getitem env ds i) =
              and_then (getitem_str ann ''Result'') (\<lambda>r.
              and_then (getitem_int r 0) (\<lambda>r0.
              and_then (getitem_str r0 ''Data'') (\<lambda>dt.
              and_then (getitem_int dt 0) (\<lambda>dt0.
              and_then (getitem_str dt0 ''Label'') (\<lambda>l.
              and_then (py_int l) (\<lambda>n. Inr (d, PInt n))))))))
       \<and> (\<forall>h. target_transform ds = Some h \<longrightarrow>
            fst (TorchTOSDataset_getitem env ds i) =
              (case h ann of Inl msg \<Rightarrow> Inl (CollaboratorError msg) | Inr l \<Rightarrow> Inr (d, l)))
       \<and> (\<forall>n. target_transform ds = None \<and> label_field ann = Inr (PInt n) \<longrightarrow>
            fst (TorchTOSDataset_getitem env ds i) = Inr (d, PInt n))
       \<and> (\<forall>s. target_transform ds = None \<and> label_field ann = Inr (PStr s) \<and> s \<noteq> []
              \<and> (\<forall>c \<in> set s. 48 \<le> (of_char c :: nat) \<and> (of_char c :: nat) \<le> 57)
              \<and> length s \<le> 4300 \<longrightarrow>
            fst (TorchTOSDataset_getitem env ds i) =
              Inr (d, PInt (int (foldl (\<lambda>a c. 10 * a + (of_char c - 48)) 0 s))))"
proof -
  have run: "TorchTOSDataset_getitem env ds i =
      (and_then (case target_transform ds of
                   Some h \<Rightarrow> raised (h ann)
                 | None \<Rightarrow> default_target_transform ann) (\<lambda>label. Inr (d, label)),
       ds\<lparr>tos_client := True\<rparr>)"
    using assms by (auto simp: TorchTOSDataset_getitem_def raised_def)
  have chain: "default_target_transform ann =
      and_then (getitem_str ann ''Result'') (\<lambda>r.
      and_then (getitem_int r 0) (\<lambda>r0.
      and_then (getitem_str r0 ''Data'') (\<lambda>dt.
      and_then (getitem_int dt 0) (\<lambda>dt0.
      and_then (getitem_str dt0 ''Label'') (\<lambda>l.
      and_then (py_int l) (\<lambda>n. Inr (PInt n)))))))"
    by (simp add: default_target_transform_def label_field_def and_then_def split: sum.splits)
  have 1: "fst (TorchTOSDataset_getitem env ds i) =
              and_then (getitem_str ann ''Result'') (\<lambda>r.
              and_then (getitem_int r 0) (\<lambda>r0.
              and_then (getitem_str r0 ''Data'') (\<lambda>dt.
              and_then (getitem_int dt 0) (\<lambda>dt0.
              and_then (getitem_str dt0 ''Label'') (\<lambda>l.
              and_then (py_int l) (\<lambda>n. Inr (d, PInt n)))))))"
    if "target_transform ds = None"
    using that unfolding run chain by (simp add: and_then_def split: sum.splits)
  have 2: "fst (TorchTOSDataset_getitem env ds i) =
              (case h ann of Inl msg \<Rightarrow> Inl (CollaboratorError msg) | Inr l \<Rightarrow> Inr (d, l))"
    if "target_transform ds = Some h" for h
    using that unfolding run by (simp add: raised_def and_then_def split: sum.splits)
  have 3: "fst (TorchTOSDataset_getitem env ds i) = Inr (d, PInt n)"
    if "target_transform ds = None" and "label_field ann = Inr (PInt n)" for n
    using that unfolding run by (simp add: default_target_transform_def)
  have 4: "fst (TorchTOSDataset_getitem env ds i) =
              Inr (d, PInt (int (foldl (\<lambda>a c. 10 * a + (of_char c - 48)) 0 s)))"
    if "target_transform ds = None" and "label_field ann = Inr (PStr s)" and "s \<noteq> []"
      and "\<forall>c \<in> set s. 48 \<le> (of_char c :: nat) \<and> (of_char c :: nat) \<le> 57"
      and "length s \<le> 4300" for s
  proof -
    have "int_of_str s = Inr (int (foldl (\<lambda>a c. 10 * a + (of_char c - 48)) 0 s))"
      using that(3-5) by (intro int_of_str_digits) (simp_all add: is_digit_def int_max_str_digits_def)
    with that(1,2) show ?thesis
      unfolding run by (simp add: default_target_transform_def)
  qed
  from 1 2 3 4 show ?thesis
    by blast
qed

lemma example_int_of_str:
  "int_of_str ''3'' = Inr 3"
  "int_of_str [CHR 0x1C, CHR ''3''] = Inl ValueError"
  "int_of_str [CHR '' '', CHR ''-'', CHR ''1'', CHR ''2'', CHR 0x0A] = Inr (- 12)"
  "int_of_str ''1_0'' = Inr 10"
  "int_of_str ''1__0'' = Inl ValueError"
  "int_of_str [CHR 0xA0, CHR ''7''] = Inr 7"
  "int_of_str [] = Inl ValueError"
  by code_simp+

theorem C8_label_extraction_witness:
  "fst (TorchTOSDataset_getitem example_env (example_dataset example_annotation None) 0)
     = Inr (''raw'', PInt 3)
   \<and> fst (TorchTOSDataset_getitem example_env
            (example_dataset (label_annotation (PStr [CHR 0x1C, CHR ''3''])) None) 0)
     = Inl ValueError
   \<and> fst (TorchTOSDataset_getitem example_env
            (example_dataset (label_annotation
               (PStr [CHR '' '', CHR ''-'', CHR ''1'', CHR ''2'', CHR 0x0A])) None) 0)
     = Inr (''raw'', PInt (- 12))
   \<and> fst (TorchTOSDataset_getitem example_env
            (example_dataset (label_annotation (PFloat (Fin (5 / 2)))) None) 0)
     = Inr (''raw'', PInt 2)
   \<and> fst (TorchTOSDataset_getitem example_env
            (example_dataset (label_annotation (PInt 41)) None) 0)
     = Inr (''raw'', PInt 41)
   \<and> fst (TorchTOSDataset_getitem example_env (example_dataset PNone None) 0) = Inl TypeError
   \<and> fst (TorchTOSDataset_getitem example_env
            (example_dataset PNone (Some (\<lambda>a. Inr (PInt 7)))) 0)
     = Inr (''raw'', PInt 7)"
proof -
  have r: "\<lfloor>5 / 2 :: rat\<rfloor> = 2"
    by linarith
  have default: "fst (TorchTOSDataset_getitem example_env (example_dataset (label_annotation l) None) 0)
     = and_then (py_int l) (\<lambda>n. Inr (''raw'', PInt n))" for l
    using C8_label_extraction [of "example_dataset (label_annotation l) None" example_env 0
        "PStr ''b''" "PStr ''k''" "label_annotation l" "''raw''" "''raw''" "''raw''"]
    by (simp add: example_dataset_def example_env_def label_annotation_def seq_index_def)
  have none: "fst (TorchTOSDataset_getitem example_env (example_dataset PNone None) 0)
     = Inl TypeError"
    using C8_label_extraction [of "example_dataset PNone None" example_env 0
        "PStr ''b''" "PStr ''k''" PNone "''raw''" "''raw''" "''raw''"]
    by (simp add: example_dataset_def example_env_def seq_index_def)
  have hook: "fst (TorchTOSDataset_getitem example_env
            (example_dataset PNone (Some (\<lambda>a. Inr (PInt 7)))) 0) = Inr (''raw'', PInt 7)"
    using C8_label_extraction [of "example_dataset PNone (Some (\<lambda>a. Inr (PInt 7)))" example_env 0
        "PStr ''b''" "PStr ''k''" PNone "''raw''" "''raw''" "''raw''"]
    by (simp add: example_dataset_def example_env_def seq_index_def)
  show ?thesis
    unfolding example_annotation_def default none hook
    by (simp add: example_int_of_str r)
qed

text \<open>
  Claim C5. The example URL of the specification parses to its bucket and its whole key.
  A URL whose key contains the bucket name followed by a slash does not: line 175 splits
  the URL at every occurrence of \<^verbatim>\<open>bucket + "/"\<close> and keeps the second piece, so the key
  ends where the bucket name occurs again.
\<close>

theorem C5_parse_url_key_cut_short:
  "parse_url ''tos://my-bucket/path/to/img.jpg'' = Inr (''my-bucket'', ''path/to/img.jpg'')
   \<and> parse_url ''tos://cat/train/cat/1.jpg'' = Inr (''cat'', ''train/'')"
  by (simp add: parse_url_def py_split_def seq_index_def)

lemma parse_image_manifest_loop_ok:
  "\<forall>l \<in> set ls. \<not> isl (parse_image_manifest_line j l) \<Longrightarrow>
   parse_image_manifest_loop j ls (bs, ks, as) =
     Inr (bs @ map (\<lambda>l. fst (projr (parse_image_manifest_line j l))) ls,
          ks @ map (\<lambda>l. fst (snd (projr (parse_image_manifest_line j l)))) ls,
          as @ map (\<lambda>l. snd (snd (projr (parse_image_manifest_line j l)))) ls)"
proof (induction ls arbitrary: bs ks as)
  case Nil
  then show ?case by simp
next
  case (Cons l ls)
  from Cons.prems obtain b k a where l: "parse_image_manifest_line j l = Inr (b, k, a)"
    by (cases "parse_image_manifest_line j l") auto
  from Cons.prems have rest: "\<forall>l \<in> set ls. \<not> isl (parse_image_manifest_line j l)" by simp
  show ?case using Cons.IH [OF rest] l by simp
qed

text \<open>
  Claim C9. For a manifest file every line of which parses, parse\_image\_manifest returns
  the three lists \<open>buckets\<close>, \<open>keys\<close> and \<open>annotations\<close>, each as long as the file has
  lines, entry \<open>i\<close> of each being what line \<open>i\<close> parses to; the dataset constructed from
  them holds these lists and its \<^verbatim>\<open>__len__\<close> is the number of lines.
\<close>

theorem C9_parallel_arrays:
  assumes lines_of_file: "files fs path = Some ls"
    and all_lines_parse: "\<forall>l \<in> set ls. \<not> isl (parse_image_manifest_line j l)"
  shows "\<exists>bs ks as ds.
           parse_image_manifest j fs path =
             Inr (manifest_info_of (PList (map PStr bs)) (PList (map PStr ks)) (PList as))
         \<and> length bs = length ls \<and> length ks = length ls \<and> length as = length ls
         \<and> (\<forall>i < length ls. parse_image_manifest_line j (ls ! i) = Inr (bs ! i, ks ! i, as ! i))
         \<and> TorchTOSDataset_init g
              (Some (manifest_info_of (PList (map PStr bs)) (PList (map PStr ks)) (PList as)))
              dec tr ttr cred = Inr ds
         \<and> buckets ds = PList (map PStr bs) \<and> keys ds = PList (map PStr ks)
         \<and> annotations ds = PList as
         \<and> TorchTOSDataset_len ds = Inr (length ls)"
proof -
  let ?p = "parse_image_manifest_line j"
  let ?bs = "map (\<lambda>l. fst (projr (?p l))) ls"
  let ?ks = "map (\<lambda>l. fst (snd (projr (?p l)))) ls"
  let ?as = "map (\<lambda>l. snd (snd (projr (?p l)))) ls"
  let ?mi = "manifest_info_of (PList (map PStr ?bs)) (PList (map PStr ?ks)) (PList ?as)"
  let ?ds = "\<lparr> credential = (case cred of Some c \<Rightarrow> c | None \<Rightarrow> g), decode = dec,
                transform = tr, target_transform = ttr, buckets = PList (map PStr ?bs),
                keys = PList (map PStr ?ks), annotations = PList ?as, tos_client = False \<rparr>"
  have parse: "parse_image_manifest j fs path = Inr ?mi"
    using parse_image_manifest_loop_ok [OF all_lines_parse, of "[]" "[]" "[]"] lines_of_file
    by (simp add: parse_image_manifest_def)
  have line: "?p (ls ! i) = Inr (?bs ! i, ?ks ! i, ?as ! i)" if "i < length ls" for i
  proof -
    from that all_lines_parse have "\<not> isl (?p (ls ! i))" by simp
    then show ?thesis using that by (cases "?p (ls ! i)") auto
  qed
  have init: "TorchTOSDataset_init g (Some ?mi) dec tr ttr cred = Inr ?ds"
    by (simp add: TorchTOSDataset_init_def manifest_info_of_simps)
  have len: "TorchTOSDataset_len ?ds = Inr (length ls)"
    by (simp add: TorchTOSDataset_len_def)
  show ?thesis
    apply (rule exI [of _ ?bs], rule exI [of _ ?ks], rule exI [of _ ?as], rule exI [of _ ?ds])
    using parse line init len by simp
qed

lemma example_lines_valid:
  "\<forall>l \<in> set example_lines. \<not> isl (parse_image_manifest_line example_json l)"
  by (simp add: example_lines_def parse_image_manifest_line_def example_json_def json_loads_def
      example_record_def parse_url_def py_split_def seq_index_def)

theorem C9_parallel_arrays_witness:
  "\<exists>bs ks as. parse_image_manifest example_json example_fs ''data/local_metadata.manifest'' =
       Inr (manifest_info_of (PList (map PStr bs)) (PList (map PStr ks)) (PList as))
     \<and> length bs = 3 \<and> length ks = 3 \<and> length as = 3"
proof -
  have f: "files example_fs ''data/local_metadata.manifest'' = Some example_lines"
    by (simp add: example_fs_def)
  have n: "length example_lines = 3" by (simp add: example_lines_def)
  show ?thesis
    using C9_parallel_arrays [OF f example_lines_valid, of "()" None None None None]
    unfolding n by blast
qed

subsection \<open>Rounding to double precision\<close>

text \<open>
  A non-negative value bounded by an integer of at most \<open>2\<^sup>5\<^sup>3\<close> rounds to a double
  within the same bounds, and such an integer is a double itself. Hence
  \<^verbatim>\<open>math.floor(line_count * (1 - ratio))\<close> lies between 0 and \<open>line_count\<close> for a
  ratio between 0 and 1.
\<close>

lemma round_half_even_of_int: "round_half_even (of_int m) = m"
  by (simp add: round_half_even_def)

lemma round_half_even_le: "q \<le> of_int m \<Longrightarrow> round_half_even q \<le> m"
proof -
  assume q: "q \<le> of_int m"
  have fl: "\<lfloor>q\<rfloor> \<le> m" using q by (simp add: floor_le_iff) 
  show ?thesis
  proof (cases "\<lfloor>q\<rfloor> = m")
    case True
    then have "of_int m \<le> q" by (metis of_int_floor_le)
    with q have "q = of_int m" by simp
    then show ?thesis by (simp add: round_half_even_of_int)
  next
    case False
    with fl have "\<lfloor>q\<rfloor> + 1 \<le> m" by simp
    then show ?thesis using fl by (simp add: round_half_even_def Let_def)
  qed
qed

lemma round_half_even_nonneg: "0 \<le> q \<Longrightarrow> 0 \<le> round_half_even q"
  by (simp add: round_half_even_def Let_def)

lemma ilog2_le: "0 < q \<Longrightarrow> power_int 2 (ilog2 q) \<le> q"
proof -
  assume q: "0 < q"
  obtain a b where ab: "quotient_of q = (a, b)" by (cases "quotient_of q")
  then have b: "0 < b" and qe: "q = of_int a / of_int b"
    by (simp_all add: quotient_of_denom_pos quotient_of_div)
  with q have a: "0 < a" by (simp add: zero_less_divide_iff)
  let ?l = "bitlen a - bitlen b"
  have la: "(2::rat) ^ nat (bitlen a - 1) \<le> of_int a"
    using bitlen_bounds [OF a] by (metis of_int_le_iff of_int_numeral of_int_power)
  have lb: "of_int b < (2::rat) ^ nat (bitlen b)"
    using bitlen_bounds [OF b] by (metis of_int_less_iff of_int_numeral of_int_power)
  have ba: "1 \<le> bitlen a" using a by (simp add: bitlen_alt_def)
  have bb: "0 \<le> bitlen b" by (rule bitlen_nonneg)
  have "power_int (2::rat) (?l - 1) = power_int 2 (bitlen a - 1) / power_int 2 (bitlen b)"
    by (simp add: power_int_diff)
  also have "\<dots> = 2 ^ nat (bitlen a - 1) / 2 ^ nat (bitlen b)"
    using ba bb by (simp add: power_int_def)
  also have "\<dots> \<le> of_int a / of_int b"
    using la lb b a by (intro frac_le) simp_all
  finally have low: "power_int (2::rat) (?l - 1) \<le> q" using qe by simp
  show ?thesis using low ab by (simp add: ilog2_def Let_def)
qed

lemma last_bit_exponent:
  assumes x: "0 < x" and xM: "x \<le> of_int M" and M: "M \<le> 2 ^ 53"
  shows "max (ilog2 x - 52) (- 1074) \<le> 0 \<or> (x = 2 ^ 53 \<and> M = 2 ^ 53 \<and> ilog2 x = 53)"
proof (cases "ilog2 x \<le> 52")
  case True
  then show ?thesis by simp
next
  case False
  then have l: "53 \<le> ilog2 x" by simp
  have "(2::rat) ^ 53 = power_int 2 53" by simp
  also have "\<dots> \<le> power_int 2 (ilog2 x)" using l by (intro power_int_increasing) simp_all
  also have "\<dots> \<le> x" by (rule ilog2_le [OF x])
  finally have low: "(2::rat) ^ 53 \<le> x" .
  have "of_int M \<le> (2::rat) ^ 53" using M by (metis of_int_le_iff of_int_numeral of_int_power)
  with low xM have xe: "x = 2 ^ 53" and Me: "(of_int M :: rat) = 2 ^ 53" by simp_all
  from Me have M53: "M = 2 ^ 53" by (metis of_int_eq_iff of_int_numeral of_int_power)
  have "\<not> 54 \<le> ilog2 x"
  proof
    assume "54 \<le> ilog2 x"
    then have "power_int (2::rat) 54 \<le> power_int 2 (ilog2 x)"
      by (intro power_int_increasing) simp_all
    also have "\<dots> \<le> x" by (rule ilog2_le [OF x])
    finally show False using xe by simp
  qed
  with l have "ilog2 x = 53" by simp
  with xe M53 show ?thesis by simp
qed

lemma round_double_le:
  assumes x: "0 \<le> x" and xM: "x \<le> of_int M" and M: "M \<le> 2 ^ 53"
  shows "0 \<le> round_double x \<and> round_double x \<le> of_int M"
proof (cases "x = 0")
  case True
  with xM show ?thesis by (simp add: round_double_def)
next
  case False
  with x have xp: "0 < x" by simp
  let ?e = "max (ilog2 x - 52) (- 1074)"
  have rd: "round_double x = of_int (round_half_even (x / power_int 2 ?e)) * power_int 2 ?e"
    using xp by (simp add: round_double_def Let_def)
  have nonneg: "0 \<le> round_double x"
    unfolding rd using xp by (intro mult_nonneg_nonneg) (simp_all add: round_half_even_nonneg)
  from last_bit_exponent [OF xp xM M] show ?thesis
  proof
    assume e: "?e \<le> 0"
    define n where "n = nat (- ?e)"
    have p: "power_int (2::rat) ?e = 1 / 2 ^ n"
      using e unfolding n_def by (simp add: power_int_def field_simps)
    have "x / power_int 2 ?e = x * 2 ^ n" by (simp add: p)
    also have "\<dots> \<le> of_int M * 2 ^ n" using xM by simp
    also have "\<dots> = of_int (M * 2 ^ n)" by simp
    finally have "round_half_even (x / power_int 2 ?e) \<le> M * 2 ^ n"
      by (rule round_half_even_le)
    then have "(of_int (round_half_even (x / power_int 2 ?e)) :: rat) \<le> of_int (M * 2 ^ n)"
      by (simp only: of_int_le_iff)
    then have "(of_int (round_half_even (x / power_int 2 ?e)) :: rat) * power_int 2 ?e
                 \<le> of_int M"
      by (simp add: p field_simps)
    with nonneg rd show ?thesis by simp
  next
    assume top: "x = 2 ^ 53 \<and> M = 2 ^ 53 \<and> ilog2 x = 53"
    from top have xe: "x = 2 ^ 53" by (rule conjunct1)
    from top have Me: "M = 2 ^ 53" by (rule conjunct2 [THEN conjunct1])
    from top have l: "ilog2 x = 53" by (rule conjunct2 [THEN conjunct2])
    have "x / power_int 2 ?e = of_int (2 ^ 52)" using xe l by simp
    then have "round_half_even (x / power_int 2 ?e) = 2 ^ 52"
      by (simp only: round_half_even_of_int)
    then have "round_double x = 2 ^ 53" unfolding rd using l by simp
    with Me show ?thesis by simp
  qed
qed



lemma max_double_large: "2 ^ 53 \<le> max_double"
  by (simp add: max_double_def)

lemma to_float_small:
  assumes "0 \<le> x" and "x \<le> of_int M" and "M \<le> 2 ^ 53"
  shows "to_float x = Fin (round_double x)"
proof -
  have r: "0 \<le> round_double x \<and> round_double x \<le> of_int M"
    using assms by (rule round_double_le)
  have "(of_int M :: rat) \<le> 2 ^ 53"
    using assms(3) by (metis of_int_le_iff of_int_numeral of_int_power)
  with r max_double_large have "round_double x \<le> max_double" by linarith
  moreover have "0 \<le> max_double" by (simp add: max_double_def)
  ultimately show ?thesis using r by (simp add: to_float_def Let_def)
qed



subsection \<open>split: the guard\<close>

lemma and_then_w_simps [simp]:
  "m w = (Inl e, w') \<Longrightarrow> and_then_w m f w = (Inl e, w')"
  "m w = (Inr x, w') \<Longrightarrow> and_then_w m f w = f x w'"
  by (simp_all add: and_then_w_def)

lemma and_then_w_no_exception:
  assumes "\<And>w. fst (m w) \<noteq> Inl (Exception s)"
    and "\<And>x w. fst (f x w) \<noteq> Inl (Exception s)"
  shows "fst (and_then_w m f w) \<noteq> Inl (Exception s)"
proof (cases "m w")
  case (Pair r w')
  show ?thesis
  proof (cases r)
    case (Inl e)
    with Pair assms(1) [of w] show ?thesis by (simp add: and_then_w_def)
  next
    case (Inr x)
    with Pair assms(2) [of x w'] show ?thesis by (simp add: and_then_w_def)
  qed
qed

lemma pure_w_no_exception:
  "r \<noteq> Inl (Exception s) \<Longrightarrow> fst (pure_w r w) \<noteq> Inl (Exception s)"
  by (simp add: pure_w_def)

lemma test_count_no_exception: "test_count n ratio \<noteq> Inl (Exception s)"
proof -
  have f: "math_floor x \<noteq> Inl (Exception s)" for x by (cases x) simp_all
  show ?thesis
    by (auto simp: test_count_def int_times_float_def int_to_float_def and_then_def f
        split: pyfloat.splits sum.splits)
qed

lemma steps_no_exception:
  "fst (np_random_seed n sd w) \<noteq> Inl (Exception s)"
  "fst (np_random_choice n a k w) \<noteq> Inl (Exception s)"
  "fst (os_makedirs d w) \<noteq> Inl (Exception s)"
  "fst (open_write p w) \<noteq> Inl (Exception s)"
  "fst (open_read p w) \<noteq> Inl (Exception s)"
  "fst (write_line p l w) \<noteq> Inl (Exception s)"
  "fst (copy_file env v a1 a2 w) \<noteq> Inl (Exception s)"
  by (simp_all add: np_random_seed_def np_random_choice_def os_makedirs_def open_write_def
      open_read_def write_line_def copy_file_def split: option.splits sum.splits prod.splits)

lemma draw_no_exception:
  "fst (draw_test_index_set env n ratio sd w) \<noteq> Inl (Exception s)"
  unfolding draw_test_index_set_def
  by (intro and_then_w_no_exception pure_w_no_exception steps_no_exception
      test_count_no_exception) simp

lemma copy_then_write_no_exception:
  "fst (and_then_w (copy_file env v a d) (\<lambda>r. write_line p (g r)) w) \<noteq> Inl (Exception s)"
  by (intro and_then_w_no_exception steps_no_exception)

lemma split_line_no_exception:
  "fst (split_line env self trd ted T i line w) \<noteq> Inl (Exception s)"
proof -
  have j: "json_loads (js env) line \<noteq> Inl (Exception s)"
    by (simp add: json_loads_def split: option.splits)
  show ?thesis
    unfolding split_line_def
  proof (intro and_then_w_no_exception pure_w_no_exception j)
    fix x w
    show "fst ((if i \<in> T
            then and_then_w (copy_file env x (local_path self) ted)
                   (\<lambda>manifest_line. write_line (os_path_join ted DATASET_LOCAL_METADATA_FILENAME)
                      (dumps (js env) manifest_line))
            else and_then_w (copy_file env x (local_path self) trd)
                   (\<lambda>manifest_line. write_line (os_path_join trd DATASET_LOCAL_METADATA_FILENAME)
                      (dumps (js env) manifest_line))) w) \<noteq> Inl (Exception s)"
      using copy_then_write_no_exception [of env x "local_path self" ted _ "dumps (js env)" w s]
        copy_then_write_no_exception [of env x "local_path self" trd _ "dumps (js env)" w s]
      by (cases "i \<in> T") simp_all
  qed
qed

lemma split_loop_no_exception:
  "fst (split_loop env self trd ted T i ls w) \<noteq> Inl (Exception s)"
proof (induction ls arbitrary: i w)
  case Nil
  show ?case by simp
next
  case (Cons l ls)
  show ?case
  proof (cases "split_line env self trd ted T i l w")
    case (Pair r w')
    show ?thesis
    proof (cases r)
      case (Inl e)
      with Pair split_line_no_exception [of env self trd ted T i l w s] show ?thesis by simp
    next
      case (Inr u)
      with Pair Cons.IH [of "i + 1" w'] show ?thesis by simp
    qed
  qed
qed

text \<open>
  Claim C3. On a dataset whose \<open>created\<close> flag is false, split raises its own exception
  (the spec's NotMaterializedError) and leaves the state as it found it: no directory is
  made, no manifest written and no payload copied. On a dataset whose flag is true, split
  does not raise that exception, whatever else happens.
\<close>

theorem C3_split_requires_created:
  "(\<not> created self \<longrightarrow>
      split env self training_dir testing_dir ratio random_state w
        = (Inl (Exception ''datasets has not been created''), w))
   \<and> (created self \<longrightarrow>
      fst (split env self training_dir testing_dir ratio random_state w)
        \<noteq> Inl (Exception ''datasets has not been created''))"
proof (intro conjI impI)
  assume "\<not> created self"
  then show "split env self training_dir testing_dir ratio random_state w
        = (Inl (Exception ''datasets has not been created''), w)"
    by (simp add: split_def pure_w_def)
next
  assume c: "created self"
  show "fst (split env self training_dir testing_dir ratio random_state w)
        \<noteq> Inl (Exception ''datasets has not been created'')"
    unfolding split_def using c
    by (simp del: split_loop.simps)
      (intro and_then_w_no_exception pure_w_no_exception steps_no_exception
        test_count_no_exception draw_no_exception split_loop_no_exception, simp)
qed

theorem C3_split_requires_created_witness:
  "split example_split_env (example_source\<lparr>created := False\<rparr>) ''train'' ''test'' (Fin (1 / 2)) 1
       example_world
     = (Inl (Exception ''datasets has not been created''), example_world)
   \<and> fst (split example_split_env example_source ''train'' ''test'' (Fin (1 / 2)) 1 example_world)
     \<noteq> Inl (Exception ''datasets has not been created'')"
  using C3_split_requires_created [where self = "example_source\<lparr>created := False\<rparr>"
      and env = example_split_env and training_dir = "''train''" and testing_dir = "''test''"
      and ratio = "Fin (1 / 2)" and random_state = 1 and w = example_world]
    C3_split_requires_created [where self = example_source
      and env = example_split_env and training_dir = "''train''" and testing_dir = "''test''"
      and ratio = "Fin (1 / 2)" and random_state = 1 and w = example_world]
  by (simp add: example_source_def)

subsection \<open>split: what a run that returns has done\<close>


lemma draw_test_index_set_Inr:
  assumes "draw_test_index_set env n ratio sd w = (Inr T, w1)"
  shows "\<exists>k. test_count n ratio = Inr k \<and> 0 \<le> k \<and> k \<le> n \<and> 0 \<le> sd \<and> sd < 2 ^ 32
     \<and> T = set (fst (sample (np env) (seed_state (np env) sd) (nat n) (nat k)))
     \<and> files w1 = files w \<and> dirs w1 = dirs w \<and> payloads w1 = payloads w"
  using assms
  by (auto simp: draw_test_index_set_def and_then_w_def pure_w_def np_random_seed_def
      np_random_choice_def split: sum.splits if_splits prod.splits)




lemma example_round_double:
  "round_double (1 / 2) = 1 / 2" "round_double (3 / 2) = 3 / 2" "round_double 3 = 3"
  by code_simp+

lemma example_to_float:
  "to_float (1 / 2) = Fin (1 / 2)" "to_float (3 / 2) = Fin (3 / 2)" "to_float 3 = Fin 3"
  using to_float_small [of "1 / 2" 3] to_float_small [of "3 / 2" 3] to_float_small [of 3 3]
  by (simp_all add: example_round_double)

lemma example_test_count: "test_count 3 (Fin (1 / 2)) = Inr 1"
proof -
  have "\<lfloor>3 / 2 :: rat\<rfloor> = 1"
    by linarith
  then show ?thesis
    by (simp add: test_count_def int_times_float_def int_to_float_def example_to_float)
qed


lemma example_sample:
  "sample example_numpy (seed_state example_numpy 1) 3 (Suc 0) = ([Suc 0], 2)"
  by code_simp

lemma example_draw:
  "draw_test_index_set example_split_env 3 (Fin (1 / 2)) 1 example_world
     = (Inr {1}, example_world\<lparr>rng := 2\<rparr>)"
  by (simp add: draw_test_index_set_def and_then_w_def pure_w_def example_test_count
      np_random_seed_def np_random_choice_def example_split_env_def example_numpy_def [symmetric]
      example_sample)


subsection \<open>split: the claims\<close>

text \<open>
  Claim C2. The test index set that split draws is a function of the seed, the record
  count and the ratio alone: two runs on datasets with the same \<open>data_count\<close>, with the
  same ratio and seed, draw the same set (or raise the same error), whatever the state
  of the generator and of the file system before each run, and whatever the datasets'
  other attributes. When a set is drawn it is the sample that the freshly seeded
  generator returns.
\<close>

theorem C2_same_seed_same_test_indices:
  assumes "data_count self1 = data_count self2"
  shows "fst (draw_test_index_set env (data_count self1) ratio random_state w1)
           = fst (draw_test_index_set env (data_count self2) ratio random_state w2)
       \<and> (\<forall>T. fst (draw_test_index_set env (data_count self1) ratio random_state w1) = Inr T
             \<longrightarrow> (\<exists>k. test_count (data_count self1) ratio = Inr k
                    \<and> T = set (fst (sample (np env) (seed_state (np env) random_state)
                                      (nat (data_count self1)) (nat k)))))"
proof -
  have same: "fst (draw_test_index_set env n ratio random_state w1)
           = fst (draw_test_index_set env n ratio random_state w2)" for n
    by (simp add: draw_test_index_set_def and_then_w_def pure_w_def np_random_seed_def
        np_random_choice_def split: sum.splits)
  have drawn: "\<exists>k. test_count n ratio = Inr k
       \<and> T = set (fst (sample (np env) (seed_state (np env) random_state) (nat n) (nat k)))"
    if "fst (draw_test_index_set env n ratio random_state w1) = Inr T" for n T
  proof -
    from that obtain w' where "draw_test_index_set env n ratio random_state w1 = (Inr T, w')"
      by (cases "draw_test_index_set env n ratio random_state w1") simp
    from draw_test_index_set_Inr [OF this] show ?thesis
      by blast
  qed
  from same [of "data_count self2"] drawn [of "data_count self1"] assms show ?thesis
    by simp
qed

theorem C2_same_seed_same_test_indices_witness:
  "fst (draw_test_index_set example_split_env 3 (Fin (1 / 2)) 1 example_world) = Inr {1}
   \<and> fst (draw_test_index_set example_split_env 3 (Fin (1 / 2)) 1
           (example_world\<lparr>rng := 99, files := Map.empty\<rparr>)) = Inr {1}"
  using C2_same_seed_same_test_indices [where ?self1.0 = example_source
      and ?self2.0 = "example_source\<lparr>local_path := ''elsewhere''\<rparr>"
      and env = example_split_env and ratio = "Fin (1 / 2)" and random_state = 1
      and ?w1.0 = example_world and ?w2.0 = "example_world\<lparr>rng := 99, files := Map.empty\<rparr>"]
  by (simp add: example_source_def example_draw)
















end
